theory Spec2Isabelle
  imports Main "HOL-Library.AList"
begin

section \<open>Exceptions of \<^verbatim>\<open>mutils/cache.py\<close>\<close>

text \<open>
  The module declares \<^verbatim>\<open>AnimationTransferError\<close> and its subclass
  \<^verbatim>\<open>OutOfBoundsError\<close>; the other constructors are the built-in Python exceptions
  that the modelled functions raise. \<^verbatim>\<open>OutOfBoundsError\<close> is raised with three
  arguments: the message template and the two ranges.
\<close>

datatype error =
    AnimationTransferError string
  | OutOfBoundsError string "int \<times> int" "int \<times> int"
  | IOError string
  | AttributeError string
  | UnboundLocalError string
  | NameError string
  | TypeError string
  | ImportError string
  | PyException string

text \<open>
  \<^verbatim>\<open>class OutOfBoundsError(AnimationTransferError)\<close>: an \<^verbatim>\<open>except\<close> clause or
  an \<^verbatim>\<open>isinstance\<close> test for \<^verbatim>\<open>AnimationTransferError\<close> accepts both.
\<close>

fun isAnimationTransferError :: "error \<Rightarrow> bool" where
  "isAnimationTransferError (AnimationTransferError _) = True"
| "isAnimationTransferError (OutOfBoundsError _ _ _) = True"
| "isAnimationTransferError _ = False"

section \<open>Time-range helpers\<close>

text \<open>
  \<^verbatim>\<open>clampRange(srcTime, dstTime)\<close>, lines 113--142. Frames are Python integers,
  hence \<^typ>\<open>int\<close>. The raise is the \<^term>\<open>Inl\<close> branch; the two later \<^verbatim>\<open>if\<close>
  statements reassign \<^verbatim>\<open>srcStart\<close> and \<^verbatim>\<open>srcEnd\<close> in turn.
\<close>

definition clampRange :: "int \<times> int \<Rightarrow> int \<times> int \<Rightarrow> error + int \<times> int" where
  "clampRange srcTime dstTime =
     (case srcTime of (srcStart, srcEnd) \<Rightarrow>
      case dstTime of (dstStart, dstEnd) \<Rightarrow>
        if srcStart > dstEnd \<or> srcEnd < dstStart
        then Inl (OutOfBoundsError
               ''The src and dst time do not overlap. Unable to clamp (src=%s, dest=%s)''
               srcTime dstTime)
        else
          let srcStart' = (if srcStart < dstStart then dstStart else srcStart);
              srcEnd' = (if srcEnd > dstEnd then dstEnd else srcEnd)
          in Inr (srcStart', srcEnd'))"

text \<open>
  \<^verbatim>\<open>moveTime(time, start)\<close>, lines 145--170. The argument \<^verbatim>\<open>start\<close> is an integer
  or \<^verbatim>\<open>None\<close>, hence \<^typ>\<open>int option\<close>.
\<close>

definition moveTime :: "int \<times> int \<Rightarrow> int option \<Rightarrow> int \<times> int" where
  "moveTime time start =
     (case time of (srcStartTime, srcEndTime) \<Rightarrow>
        let duration = srcEndTime - srcStartTime;
            startTime = (case start of None \<Rightarrow> srcStartTime | Some s \<Rightarrow> s);
            endTime = startTime + duration;
            endTime' = (if startTime = endTime then startTime + 1 else endTime)
        in (startTime, endTime'))"

section \<open>Text, values and the host application\<close>

text \<open>
  \<^verbatim>\<open>isAscii\<close> reads \<^verbatim>\<open>ord(c)\<close> of every character of a path, so paths are lists of
  code points; a Python literal is converted character by character.
\<close>

type_synonym ustring = "nat list"

definition ustr :: "string \<Rightarrow> ustring" where
  "ustr s = map of_char s"

text \<open>The values stored in the metadata dict by this module: frames and unit names.\<close>

datatype pyval = PyInt int | PyStr string

text \<open>
  Modelled from the spec: the state of the base class \<^verbatim>\<open>mutils.Pose\<close>, which is not among
  the source files. Its path is the bundle directory (the identity of a cache bundle),
  its metadata is the dict of key-value annotations in insertion order, and its objects
  are the keys of the per-object attribute map.
\<close>

record cache =
  pose_path :: ustring
  pose_metadata :: "(string \<times> pyval) list"
  pose_objects :: "string list"

text \<open>
  What the functions do to the host and the log, in the order they do it. Queries
  (\<^verbatim>\<open>findKeyframe\<close>, \<^verbatim>\<open>ls\<close>, \<^verbatim>\<open>namespaceInfo\<close>, \<^verbatim>\<open>os.path.exists\<close>) leave no event;
  \<^verbatim>\<open>logger.debug\<close> and \<^verbatim>\<open>logger.info\<close> are not recorded. The arguments of the
  \<^verbatim>\<open>AbcExport\<close> job are kept as values, not as the formatted command string.
\<close>

datatype event =
    LogWarning error
  | LogWarningText string
  | LogException error
  | Delete "string list"
  | NamespaceSet string
  | NamespaceRemove string
  | FileImport ustring string
  | PoseSave ustring "(string \<times> pyval) list"
  | AbcExport int int "string list" ustring
  | USDExport ustring int int
  | CacheLoad ustring "string option" "string list option" "string list option"

text \<open>
  The answers of everything that is called but not defined in the two source files:
  the host commands \<^verbatim>\<open>maya.cmds.*\<close>, the file system, the dialog, and the base class
  \<^verbatim>\<open>mutils.Pose\<close>. A host command answers; an exception thrown inside the host is not
  a branch of the source and is not modelled. Reading a bundle from disk can fail.
  \<^item> \<open>findKeyframe curves which\<close>: \<^verbatim>\<open>maya.cmds.findKeyframe(curves, which=...)\<close>;
  \<^item> \<open>os_path_exists\<close>: \<^verbatim>\<open>os.path.exists\<close>;
  \<^item> \<open>cmds_ls pattern\<close>: \<^verbatim>\<open>maya.cmds.ls(pattern, r=True) or []\<close>;
  \<^item> \<open>namespaceInfo\<close>: \<^verbatim>\<open>maya.cmds.namespaceInfo(ls=True) or []\<close>;
  \<^item> \<open>cmds_file_import\<close>: the new nodes returned by \<^verbatim>\<open>maya.cmds.file(path, i=True, ...)\<close>;
  \<^item> \<open>selectedObjectsFrameRange\<close>: \<^verbatim>\<open>mutils.selectedObjectsFrameRange(objects)\<close>;
  \<^item> \<open>currentUnit\<close>: the time, linear and angular unit, or \<open>None\<close> when \<^verbatim>\<open>maya.cmds\<close>
    could not be imported (the name \<^verbatim>\<open>maya\<close> is then unbound);
  \<^item> \<open>Pose_init\<close>: the object left by \<^verbatim>\<open>mutils.Pose.__init__\<close>;
  \<^item> \<open>Pose_read self path\<close>: \<^verbatim>\<open>mutils.Pose.read(self, path=path)\<close>;
  \<^item> \<open>usd_modules\<close>: whether \<^verbatim>\<open>pymel.core\<close> and \<^verbatim>\<open>mgear.core\<close> can be imported;
  \<^item> \<open>crowd_top_nodes\<close>: the top parents of the selection that have \<^verbatim>\<open>is_crowd\<close>;
  \<^item> \<open>getInt paths spacing\<close>: the value and the accepted flag of
    \<^verbatim>\<open>QInputDialog.getInt\<close>;
  \<^item> \<open>class_builtin name\<close>: the attribute that the interpreter itself gives a class
    under that name (\<^verbatim>\<open>__module__\<close>, \<^verbatim>\<open>__doc__\<close>, \<^verbatim>\<open>__name__\<close>, ...), if any.
\<close>

record host =
  findKeyframe :: "string list \<Rightarrow> string \<Rightarrow> int"
  os_path_exists :: "ustring \<Rightarrow> bool"
  cmds_ls :: "string \<Rightarrow> string list"
  namespaceInfo :: "string list"
  cmds_file_import :: "ustring \<Rightarrow> string list"
  selectedObjectsFrameRange :: "string list \<Rightarrow> int option \<times> int option"
  currentUnit :: "(string \<times> string \<times> string) option"
  Pose_init :: cache
  Pose_read :: "cache \<Rightarrow> ustring \<Rightarrow> error + cache"
  usd_modules :: bool
  crowd_top_nodes :: "string list"
  getInt :: "ustring list \<Rightarrow> int \<Rightarrow> int \<times> bool"
  class_builtin :: "string \<Rightarrow> string option"

text \<open>
  \<^verbatim>\<open>os.path.join(a, b)\<close> for two components, as \<^verbatim>\<open>posixpath\<close> defines it.
\<close>

definition os_path_join :: "ustring \<Rightarrow> string \<Rightarrow> ustring" where
  "os_path_join a b =
     (if b \<noteq> [] \<and> hd b = CHR ''/'' then ustr b
      else if a = [] \<or> last a = of_char (CHR ''/'') then a @ ustr b
      else a @ ustr ''/'' @ ustr b)"

text \<open>\<^verbatim>\<open>s.replace(old, new)\<close> for a non-empty \<^verbatim>\<open>old\<close>: left to right, not overlapping.\<close>

fun str_replace :: "ustring \<Rightarrow> ustring \<Rightarrow> ustring \<Rightarrow> ustring" where
  "str_replace old new [] = []"
| "str_replace old new (x # xs) =
     (if old \<noteq> [] \<and> take (length old) (x # xs) = old
      then new @ str_replace old new (drop (length old) (x # xs))
      else x # str_replace old new xs)"

section \<open>Keyframe range of a set of curves\<close>

text \<open>
  \<^verbatim>\<open>findFirstLastKeyframes(curves, time=None)\<close>, lines 173--195. \<^verbatim>\<open>if time:\<close> is false
  for \<^verbatim>\<open>None\<close> and true for a pair. The \<^verbatim>\<open>except\<close> clause catches
  \<^verbatim>\<open>OutOfBoundsError\<close> only and logs it; any other exception would propagate.
\<close>

definition findFirstLastKeyframes ::
  "host \<Rightarrow> string list \<Rightarrow> (int \<times> int) option \<Rightarrow> (error + int \<times> int) \<times> event list" where
  "findFirstLastKeyframes h curves time =
     (let first = findKeyframe h curves ''first'';
          last = findKeyframe h curves ''last'';
          result = (first, last)
      in case time of
           None \<Rightarrow> (Inr result, [])
         | Some t \<Rightarrow>
             (case clampRange t result of
                Inr clamped \<Rightarrow> (Inr clamped, [])
              | Inl (OutOfBoundsError m a b) \<Rightarrow>
                  (Inr result, [LogWarning (OutOfBoundsError m a b)])
              | Inl e \<Rightarrow> (Inl e, [])))"

section \<open>The Cache transfer object\<close>

definition MIN_TIME_LIMIT :: int where "MIN_TIME_LIMIT = -10000"
definition MAX_TIME_LIMIT :: int where "MAX_TIME_LIMIT = 100000"
definition DEFAULT_FILE_TYPE :: string where "DEFAULT_FILE_TYPE = ''Alembic''"
definition IMPORT_NAMESPACE :: string where "IMPORT_NAMESPACE = ''REMOVE_IMPORT''"



text \<open>
  Modelled from the spec: \<^verbatim>\<open>setMetadata\<close>, \<^verbatim>\<open>metadata\<close>, \<^verbatim>\<open>setPath\<close> and \<^verbatim>\<open>path\<close>
  of \<^verbatim>\<open>mutils.Pose\<close>, which are not among the source files. The metadata dict holds
  key-value annotations and is changed in place by \<^verbatim>\<open>setMetadata\<close>; the path is the
  bundle directory.
\<close>

definition setMetadata :: "cache \<Rightarrow> string \<Rightarrow> pyval \<Rightarrow> cache" where
  "setMetadata self key v = self\<lparr>pose_metadata := AList.update key v (pose_metadata self)\<rparr>"

definition metadata :: "cache \<Rightarrow> (string \<times> pyval) list" where
  "metadata self = pose_metadata self"

definition setPath :: "cache \<Rightarrow> ustring \<Rightarrow> cache" where
  "setPath self p = self\<lparr>pose_path := p\<rparr>"

definition path :: "cache \<Rightarrow> ustring" where
  "path self = pose_path self"


text \<open>
  \<^verbatim>\<open>startFrame\<close> and \<^verbatim>\<open>endFrame\<close>, lines 366--380: \<^verbatim>\<open>dict.get\<close> gives \<^verbatim>\<open>None\<close> for a
  key that is absent.
\<close>

definition startFrame :: "cache \<Rightarrow> pyval option" where
  "startFrame self = map_of (metadata self) ''startFrame''"

definition endFrame :: "cache \<Rightarrow> pyval option" where
  "endFrame self = map_of (metadata self) ''endFrame''"

text \<open>\<^verbatim>\<open>mayaPath\<close> and \<^verbatim>\<open>poseJsonPath\<close>, lines 382--395.\<close>

definition mayaPath :: "host \<Rightarrow> cache \<Rightarrow> ustring" where
  "mayaPath h self =
     (let mayaPath = os_path_join (path self) ''animation.mb''
      in if \<not> os_path_exists h mayaPath
         then os_path_join (path self) ''animation.ma''
         else mayaPath)"




text \<open>\<^verbatim>\<open>isAscii\<close>, lines 451--453: \<^verbatim>\<open>all(ord(c) < 128 for c in s)\<close>.\<close>

definition isAscii :: "ustring \<Rightarrow> bool" where
  "isAscii s = list_all (\<lambda>c. c < 128) s"

text \<open>\<^verbatim>\<open>Cache.close\<close>, lines 480--496.\<close>

definition Cache_close :: "host \<Rightarrow> event list" where
  "Cache_close h =
     (let nodes = cmds_ls h (IMPORT_NAMESPACE @ '':*'');
          ev = (if nodes \<noteq> [] then [Delete nodes] else []);
          namespaces = namespaceInfo h
      in if IMPORT_NAMESPACE \<in> set namespaces
         then ev @ [NamespaceSet '':'', NamespaceRemove IMPORT_NAMESPACE]
         else ev)"

text \<open>
  \<^verbatim>\<open>Cache.open\<close>, lines 455--478. The decorators \<^verbatim>\<open>unifyUndo\<close> and
  \<^verbatim>\<open>restoreSelection\<close> wrap the call and pass its result and its exception through.
\<close>

definition Cache_open :: "host \<Rightarrow> cache \<Rightarrow> (error + string list) \<times> event list" where
  "Cache_open h self =
     (let ev = Cache_close h
      in if \<not> isAscii (mayaPath h self)
         then (Inl (IOError ''Cannot load animation using non-ascii paths.''), ev)
         else (Inr (cmds_file_import h (mayaPath h self)),
               ev @ [FileImport (mayaPath h self) IMPORT_NAMESPACE]))"

text \<open>
  \<^verbatim>\<open>Cache.save\<close>, lines 542--642. \<^verbatim>\<open>time\<close> is \<^verbatim>\<open>None\<close> or a pair whose components
  are integers or \<^verbatim>\<open>None\<close>; \<^verbatim>\<open>fileType\<close> is a string or \<^verbatim>\<open>None\<close>. The frame range
  is checked before anything is stored or exported. \<^verbatim>\<open>setMetadata\<close> stores \<^verbatim>\<open>end\<close>
  and \<^verbatim>\<open>start\<close>; only then is \<^verbatim>\<open>end\<close> incremented for the export.
  \<^verbatim>\<open>mutils.Pose.save\<close> writes the object to \<^verbatim>\<open>pose.json\<close> and is an event that carries
  the metadata written. A failing import of the USD modules is re-raised. The four
  decorators wrap the call and pass its result and its exception through.
\<close>

definition Cache_save ::
  "host \<Rightarrow> cache \<Rightarrow> ustring \<Rightarrow> (int option \<times> int option) option \<Rightarrow> int \<Rightarrow> string option \<Rightarrow> bool
     \<Rightarrow> (error + cache) \<times> event list" where
  "Cache_save h self p time sampleBy fileType exportUSD =
     (let objects = pose_objects self;
          fileType' = (case fileType of None \<Rightarrow> DEFAULT_FILE_TYPE
                       | Some f \<Rightarrow> if f = [] then DEFAULT_FILE_TYPE else f);
          time' = (case time of None \<Rightarrow> selectedObjectsFrameRange h objects | Some t \<Rightarrow> t)
      in case time' of
           (None, _) \<Rightarrow>
             (Inl (AnimationTransferError ''Please specify a start and end frame!''), [])
         | (Some start, None) \<Rightarrow>
             (Inl (AnimationTransferError ''Please specify a start and end frame!''), [])
         | (Some start, Some end') \<Rightarrow>
             if start \<ge> end'
             then (Inl (AnimationTransferError
                     ''The start frame cannot be greater than or equal to the end frame!''), [])
             else
               let self1 = setMetadata self ''endFrame'' (PyInt end');
                   self2 = setMetadata self1 ''startFrame'' (PyInt start);
                   end1 = end' + 1;
                   fileName = (if fileType' = ''Alembic'' then ''cache.abc'' else ''cache.abc'');
                   mayaPath = os_path_join p fileName;
                   posePath = os_path_join p ''pose.json'';
                   ev = [PoseSave posePath (metadata self2),
                         AbcExport start end1 objects mayaPath]
               in if exportUSD
                  then if \<not> usd_modules h
                       then (Inl (ImportError ''pymel.core''), ev)
                       else if crowd_top_nodes h \<noteq> []
                       then (Inr (setPath self2 p),
                             ev @ [USDExport (str_replace (ustr ''.abc'') (ustr ''.usdc'') mayaPath)
                                     start end1])
                       else (Inr (setPath self2 p), ev @ [LogWarningText ''USD not exported.''])
                  else (Inr (setPath self2 p), ev))"


section \<open>Loading a sequence of caches\<close>



section \<open>The save validator of the cache item\<close>

text \<open>
  \<^verbatim>\<open>CacheItem.saveValidator(**kwargs)\<close>, \<^verbatim>\<open>cacheitem.py\<close> lines 173--202. The two
  fields it reads are those of \<^verbatim>\<open>saveSchema\<close>: \<^verbatim>\<open>byFrame\<close> of type \<^verbatim>\<open>int\<close>, which
  the form delivers as an integer or as \<^verbatim>\<open>''\<close> while it is blank, and \<^verbatim>\<open>frameRange\<close>
  of type \<^verbatim>\<open>range\<close>, a pair of integers. Either key may be absent (\<open>None\<close>). A field
  dict is a list of key-value pairs. The fields returned by the base class
  \<^verbatim>\<open>baseitem.BaseItem\<close>, which is not among the source files, are a parameter.
\<close>

datatype byFrame_value = Blank | Frames int

record save_kwargs =
  byFrame :: "byFrame_value option"
  frameRange :: "(int \<times> int) option"

type_synonym field = "(string \<times> string) list"

definition saveValidator :: "field list \<Rightarrow> save_kwargs \<Rightarrow> field list" where
  "saveValidator base_fields kwargs =
     (let fields = base_fields;
          fields1 =
            (if byFrame kwargs = Some Blank
                \<or> (case byFrame kwargs of None \<Rightarrow> 1 | Some Blank \<Rightarrow> 1 | Some (Frames n) \<Rightarrow> n) < 1
             then fields @ [[(''name'', ''byFrame''),
                             (''error'', ''The by frame value cannot be less than 1!'')]]
             else fields)
      in case (case frameRange kwargs of None \<Rightarrow> (0, 1) | Some r \<Rightarrow> r) of
           (start, end') \<Rightarrow>
             if start \<ge> end'
             then fields1 @ [[(''name'', ''frameRange''),
                              (''error'', ''The start frame cannot be greater than or equal to the end frame!'')]]
             else fields1)"

section \<open>An example scene\<close>

text \<open>
  A host with keyframes from 10 to 20 on every curve, no file on disk, a leftover
  import namespace with one node, and bundles that read back with the range 1 to 24.
  \<open>demo_cache\<close> is a cache of two objects whose bundle directory has a non-ASCII name
  (\<open>233\<close> is U+00E9).
\<close>

definition demo_host :: host where
  "demo_host =
     \<lparr>findKeyframe = (\<lambda>curves which. if which = ''first'' then 10 else 20),
      os_path_exists = (\<lambda>p. False),
      cmds_ls = (\<lambda>pattern. [''REMOVE_IMPORT:node'']),
      namespaceInfo = [''UI'', ''REMOVE_IMPORT'', ''shared''],
      cmds_file_import = (\<lambda>p. [''REMOVE_IMPORT:node'']),
      selectedObjectsFrameRange = (\<lambda>objects. (Some 1, Some 24)),
      currentUnit = Some (''film'', ''cm'', ''deg''),
      Pose_init = \<lparr>pose_path = [], pose_metadata = [], pose_objects = []\<rparr>,
      Pose_read = (\<lambda>self p. Inr (self\<lparr>pose_metadata :=
                     [(''startFrame'', PyInt 1), (''endFrame'', PyInt 24)]\<rparr>)),
      usd_modules = False,
      crowd_top_nodes = [],
      getInt = (\<lambda>paths spacing. (spacing, True)),
      class_builtin = (\<lambda>name. if name = ''__module__'' then Some ''mutils.cache'' else None)\<rparr>"


definition demo_cache :: cache where
  "demo_cache =
     \<lparr>pose_path = ustr ''/lib/caf'' @ [233] @ ustr ''.abc'',
      pose_metadata = [(''timeUnit'', PyStr ''film'')],
      pose_objects = [''pCube1'', ''pSphere1'']\<rparr>"

section \<open>Properties of the time-range helpers\<close>

text \<open>
  C1. \<^verbatim>\<open>clampRange\<close> raises \<^verbatim>\<open>OutOfBoundsError\<close> exactly when the source range
  starts after the destination ends or ends before the destination starts; otherwise it
  returns the intersection \<open>(max srcStart dstStart, min srcEnd dstEnd)\<close>. The two examples
  of the docstring evaluate to \<open>(20, 30)\<close> and \<open>(25, 30)\<close>.
\<close>

theorem clampRange_intersection:
  "clampRange (srcStart, srcEnd) (dstStart, dstEnd) =
     (if srcStart > dstEnd \<or> srcEnd < dstStart
      then Inl (OutOfBoundsError
             ''The src and dst time do not overlap. Unable to clamp (src=%s, dest=%s)''
             (srcStart, srcEnd) (dstStart, dstEnd))
      else Inr (max srcStart dstStart, min srcEnd dstEnd))
   \<and> isl (clampRange (srcStart, srcEnd) (dstStart, dstEnd)) =
       (srcStart > dstEnd \<or> srcEnd < dstStart)
   \<and> clampRange (15, 35) (20, 30) = Inr (20, 30)
   \<and> clampRange (25, 45) (20, 30) = Inr (25, 30)"
  by (simp add: clampRange_def Let_def max_def min_def)

text \<open>
  C2, for ranges of non-zero duration. For a range \<open>(s, e)\<close> with \<open>s \<noteq> e\<close> and an integer \<open>start\<close>,
  \<^verbatim>\<open>moveTime\<close> returns \<open>(start, start + (e - s))\<close>: the range is shifted and keeps its
  duration. The restriction to \<open>s \<noteq> e\<close> is needed, see the counterexample below.
\<close>

theorem moveTime_shift:
  "s \<noteq> e \<Longrightarrow> moveTime (s, e) (Some start) = (start, start + (e - s))"
  by (simp add: moveTime_def Let_def)

text \<open>The docstring's call: \<^verbatim>\<open>moveTime((15, 35), 5)\<close> is \<open>(5, 25)\<close>.\<close>

theorem moveTime_shift_witness:
  "(15::int) \<noteq> 35 \<and> moveTime (15, 35) (Some 5) = (5, 25)"
  using moveTime_shift [of 15 35 5] by simp

text \<open>
  For a zero-duration range the result is not \<open>(start, start + (e - s))\<close>: the guard
  \<^verbatim>\<open>if startTime == endTime\<close> makes the end \<open>start + 1\<close>.
\<close>

theorem moveTime_shift_counterexample:
  "moveTime (5, 5) (Some 0) = (0, 1) \<and> moveTime (5, 5) (Some 0) \<noteq> (0, 0 + (5 - 5))"
  by (simp add: moveTime_def Let_def)

text \<open>
  C3. For a range \<open>(s, e)\<close> with \<open>s \<le> e\<close> and an integer \<open>start\<close>, the end of the pair
  returned by \<^verbatim>\<open>moveTime\<close> is greater than its start; for \<open>s = e\<close> the result is exactly
  \<open>(start, start + 1)\<close>.
\<close>

theorem moveTime_end_after_start:
  "s \<le> e \<Longrightarrow>
     fst (moveTime (s, e) (Some start)) < snd (moveTime (s, e) (Some start))
     \<and> (s = e \<longrightarrow> moveTime (s, e) (Some start) = (start, start + 1))"
proof -
  assume le: "s \<le> e"
  have shape: "moveTime (s, e) (Some start) =
      (start, if e = s then start + 1 else start + (e - s))"
    by (simp add: moveTime_def Let_def)
  from le show ?thesis
    unfolding shape by auto
qed

theorem moveTime_end_after_start_witness:
  "(7::int) \<le> 7
   \<and> fst (moveTime (7, 7) (Some 3)) < snd (moveTime (7, 7) (Some 3))
   \<and> moveTime (7, 7) (Some 3) = (3, 4)"
  using moveTime_end_after_start [of 7 7 3] by simp

text \<open>
  C10. For a range \<open>(s, e)\<close> with \<open>e > s\<close>, \<^verbatim>\<open>moveTime((s, e), None)\<close> is \<open>(s, e)\<close>, and
  moving twice to the same start \<open>t\<close> is the same as moving once.
\<close>

theorem moveTime_None_identity:
  "s < e \<Longrightarrow>
     moveTime (s, e) None = (s, e)
     \<and> moveTime (moveTime (s, e) (Some t)) (Some t) = moveTime (s, e) (Some t)"
  by (simp add: moveTime_def Let_def)

theorem moveTime_None_identity_witness:
  "(15::int) < 35
   \<and> moveTime (15, 35) None = (15, 35)
   \<and> moveTime (moveTime (15, 35) (Some 5)) (Some 5) = (5, 25)"
proof -
  have once: "moveTime (15, 35) (Some 5) = (5, 25)"
    by (simp add: moveTime_def Let_def)
  from moveTime_None_identity [of 15 35 5] show ?thesis
    by (simp add: once)
qed

section \<open>Properties of the keyframe range\<close>

text \<open>
  C5. With \<open>(first, last)\<close> the keyframes reported by the host:
  \<^verbatim>\<open>findFirstLastKeyframes\<close> returns \<open>(first, last)\<close> when \<^verbatim>\<open>time\<close> is \<^verbatim>\<open>None\<close>; when
  \<^verbatim>\<open>time\<close> does not overlap \<open>(first, last)\<close> it does not raise, logs the
  \<^verbatim>\<open>OutOfBoundsError\<close> as a warning and returns \<open>(first, last)\<close> unchanged; when they
  overlap it returns \<^verbatim>\<open>clampRange(time, (first, last))\<close> and logs nothing.
\<close>

theorem findFirstLastKeyframes_clamp:
  "findFirstLastKeyframes h curves None =
     (Inr (findKeyframe h curves ''first'', findKeyframe h curves ''last''), [])
   \<and> findFirstLastKeyframes h curves (Some (s, e)) =
       (let first = findKeyframe h curves ''first'';
            last = findKeyframe h curves ''last''
        in if s > last \<or> e < first
           then (Inr (first, last),
                 [LogWarning (OutOfBoundsError
                    ''The src and dst time do not overlap. Unable to clamp (src=%s, dest=%s)''
                    (s, e) (first, last))])
           else (clampRange (s, e) (first, last), []))"
proof (intro conjI)
  show "findFirstLastKeyframes h curves None =
     (Inr (findKeyframe h curves ''first'', findKeyframe h curves ''last''), [])"
    by (simp add: findFirstLastKeyframes_def)
next
  let ?first = "findKeyframe h curves ''first''"
  let ?last = "findKeyframe h curves ''last''"
  show "findFirstLastKeyframes h curves (Some (s, e)) =
       (let first = ?first; last = ?last
        in if s > last \<or> e < first
           then (Inr (first, last),
                 [LogWarning (OutOfBoundsError
                    ''The src and dst time do not overlap. Unable to clamp (src=%s, dest=%s)''
                    (s, e) (first, last))])
           else (clampRange (s, e) (first, last), []))"
  proof (cases "s > ?last \<or> e < ?first")
    case True
    then show ?thesis
      by (simp add: findFirstLastKeyframes_def clampRange_def Let_def)
  next
    case False
    then have "clampRange (s, e) (?first, ?last) = Inr (max s ?first, min e ?last)"
      by (simp add: clampRange_def Let_def max_def min_def)
    with False show ?thesis
      by (simp add: findFirstLastKeyframes_def Let_def)
  qed
qed

text \<open>
  In the example scene the keyframes run from 10 to 20: the range 30 to 40 is logged
  and ignored, the range 15 to 35 is clamped.
\<close>

theorem findFirstLastKeyframes_clamp_witness:
  "findFirstLastKeyframes demo_host [''curve1''] (Some (30, 40)) =
     (Inr (10, 20),
      [LogWarning (OutOfBoundsError
         ''The src and dst time do not overlap. Unable to clamp (src=%s, dest=%s)''
         (30, 40) (10, 20))])
   \<and> findFirstLastKeyframes demo_host [''curve1''] (Some (15, 35)) = (Inr (15, 20), [])
   \<and> findFirstLastKeyframes demo_host [''curve1''] None = (Inr (10, 20), [])"
proof -
  have k: "findKeyframe demo_host [''curve1''] ''first'' = 10"
          "findKeyframe demo_host [''curve1''] ''last'' = 20"
    by (simp_all add: demo_host_def)
  have c: "clampRange (15, 35) (10, 20) = Inr (15, 20)"
    by (simp add: clampRange_def Let_def)
  from findFirstLastKeyframes_clamp [of demo_host "[''curve1'']" 30 40]
       findFirstLastKeyframes_clamp [of demo_host "[''curve1'']" 15 35]
  show ?thesis
    by (simp add: k c Let_def)
qed

section \<open>Properties of the Cache transfer object\<close>

lemma isAscii_iff: "isAscii s = (\<forall>c \<in> set s. c < 128)"
  by (simp add: isAscii_def list_all_iff)

lemma Cache_close_no_import: "FileImport p ns \<notin> set (Cache_close h)"
  by (simp add: Cache_close_def Let_def)

lemma setMetadata_lookup:
  "map_of (metadata (setMetadata c k v)) = (map_of (metadata c))(k \<mapsto> v)"
  by (simp add: setMetadata_def metadata_def update_conv')

lemma setPath_metadata: "metadata (setPath c p) = metadata c"
  by (simp add: setPath_def metadata_def)

lemma Cache_save_success:
  assumes "fst (Cache_save h self p (Some (Some start, Some end')) sampleBy fileType exportUSD)
             = Inr self'"
  shows "start < end' \<and>
         self' = setPath (setMetadata (setMetadata self ''endFrame'' (PyInt end'))
                   ''startFrame'' (PyInt start)) p"
  using assms by (auto simp: Cache_save_def Let_def split: if_splits)

lemma Cache_save_events:
  "start < end' \<Longrightarrow>
   take 2 (snd (Cache_save h self p (Some (Some start, Some end')) sampleBy fileType exportUSD)) =
     [PoseSave (os_path_join p ''pose.json'')
        (metadata (setMetadata (setMetadata self ''endFrame'' (PyInt end'))
           ''startFrame'' (PyInt start))),
      AbcExport start (end' + 1) (pose_objects self) (os_path_join p ''cache.abc'')]"
  by (simp add: Cache_save_def Let_def)

lemma demo_save:
  "Cache_save demo_host demo_cache (ustr ''/lib/run'') (Some (Some 1, Some 24)) 1 None False =
     (Inr \<lparr>pose_path = ustr ''/lib/run'',
           pose_metadata = [(''timeUnit'', PyStr ''film''), (''endFrame'', PyInt 24),
                            (''startFrame'', PyInt 1)],
           pose_objects = [''pCube1'', ''pSphere1'']\<rparr>,
      [PoseSave (ustr ''/lib/run/pose.json'')
         [(''timeUnit'', PyStr ''film''), (''endFrame'', PyInt 24), (''startFrame'', PyInt 1)],
       AbcExport 1 25 [''pCube1'', ''pSphere1''] (ustr ''/lib/run/cache.abc'')])"
  by (simp add: Cache_save_def demo_host_def demo_cache_def setMetadata_def setPath_def
      metadata_def os_path_join_def ustr_def DEFAULT_FILE_TYPE_def Let_def)

text \<open>
  C4, with the comparison that the code makes. For a pair \<open>(start, end)\<close> of integers, \<^verbatim>\<open>Cache.save\<close> raises an
  \<^verbatim>\<open>AnimationTransferError\<close> exactly when \<open>start \<ge> end\<close>; it then raises "The start
  frame cannot be greater than or equal to the end frame!" before anything is stored
  or exported. The enforced invariant is \<open>start < end\<close>: a zero-duration range is
  rejected, see the counterexample below.
\<close>

theorem Cache_save_range_check:
  "(case fst (Cache_save h self p (Some (Some start, Some end')) sampleBy fileType exportUSD) of
      Inl e \<Rightarrow> isAnimationTransferError e
    | Inr c \<Rightarrow> False) = (start \<ge> end')
   \<and> (start \<ge> end' \<longrightarrow>
        Cache_save h self p (Some (Some start, Some end')) sampleBy fileType exportUSD =
          (Inl (AnimationTransferError
             ''The start frame cannot be greater than or equal to the end frame!''), []))"
proof (cases "start \<ge> end'")
  case True
  then show ?thesis
    by (simp add: Cache_save_def Let_def)
next
  case False
  then show ?thesis
    by (simp add: Cache_save_def Let_def)
qed

theorem Cache_save_range_check_witness:
  "(3::int) \<le> 9
   \<and> Cache_save demo_host demo_cache (ustr ''/lib/run'') (Some (Some 9, Some 3)) 1 None False =
       (Inl (AnimationTransferError
          ''The start frame cannot be greater than or equal to the end frame!''), [])
   \<and> \<not> (24::int) \<le> 1
   \<and> isl (fst (Cache_save demo_host demo_cache (ustr ''/lib/run'') (Some (Some 1, Some 24))
              1 None False)) = False"
  using Cache_save_range_check [of demo_host demo_cache "ustr ''/lib/run''" 9 3 1 None False]
  by (simp add: demo_save)

text \<open>
  The range \<open>(5, 5)\<close> satisfies \<open>start \<le> end\<close> (it is not the case that \<open>start > end\<close>),
  and \<^verbatim>\<open>Cache.save\<close> raises.
\<close>

theorem Cache_save_zero_duration_counterexample:
  "\<not> (5::int) > 5
   \<and> Cache_save demo_host demo_cache (ustr ''/lib/run'') (Some (Some 5, Some 5)) 1 None False =
       (Inl (AnimationTransferError
          ''The start frame cannot be greater than or equal to the end frame!''), [])"
  by (simp add: Cache_save_def Let_def)

text \<open>
  C6. When \<^verbatim>\<open>mayaPath()\<close> contains a character with code point 128 or more,
  \<^verbatim>\<open>Cache.open\<close> raises \<^verbatim>\<open>IOError("Cannot load animation using non-ascii paths.")\<close>
  after \<^verbatim>\<open>close()\<close> and issues no file import. \<^verbatim>\<open>isAscii(s)\<close> is true exactly when every
  character of \<open>s\<close> has a code point below 128.
\<close>

theorem Cache_open_non_ascii:
  "((\<exists>c \<in> set (mayaPath h self). c \<ge> 128) \<longrightarrow>
      Cache_open h self =
        (Inl (IOError ''Cannot load animation using non-ascii paths.''), Cache_close h)
      \<and> (\<forall>p ns. FileImport p ns \<notin> set (snd (Cache_open h self))))
   \<and> isAscii s = (\<forall>c \<in> set s. c < 128)"
proof -
  have "Cache_open h self =
        (Inl (IOError ''Cannot load animation using non-ascii paths.''), Cache_close h)"
    if "\<exists>c \<in> set (mayaPath h self). c \<ge> 128"
  proof -
    from that have "\<not> isAscii (mayaPath h self)"
      by (auto simp: isAscii_iff not_less)
    then show ?thesis by (simp add: Cache_open_def Let_def)
  qed
  then show ?thesis
    by (auto simp: isAscii_iff Cache_close_no_import)
qed

theorem Cache_open_non_ascii_witness:
  "(\<exists>c \<in> set (mayaPath demo_host demo_cache). c \<ge> 128)
   \<and> Cache_open demo_host demo_cache =
       (Inl (IOError ''Cannot load animation using non-ascii paths.''),
        [Delete [''REMOVE_IMPORT:node''], NamespaceSet '':'', NamespaceRemove ''REMOVE_IMPORT''])
   \<and> (\<forall>p ns. FileImport p ns \<notin> set (snd (Cache_open demo_host demo_cache)))
   \<and> \<not> isAscii [99, 97, 102, 233]"
proof -
  have m: "mayaPath demo_host demo_cache =
      ustr ''/lib/caf'' @ [233] @ ustr ''.abc/animation.ma''"
    by (simp add: mayaPath_def demo_host_def demo_cache_def path_def os_path_join_def
        ustr_def Let_def)
  have h: "\<exists>c \<in> set (mayaPath demo_host demo_cache). c \<ge> 128"
    unfolding m by simp
  have c: "Cache_close demo_host =
       [Delete [''REMOVE_IMPORT:node''], NamespaceSet '':'', NamespaceRemove ''REMOVE_IMPORT'']"
    by (simp add: Cache_close_def demo_host_def IMPORT_NAMESPACE_def Let_def)
  from Cache_open_non_ascii [of demo_host demo_cache "[99, 97, 102, 233]"] h c
  show ?thesis by simp
qed

text \<open>
  C7. After a successful \<^verbatim>\<open>Cache.save(path, time=(start, end), ...)\<close> with
  \<open>start < end\<close>, the metadata of the cache maps \<^verbatim>\<open>"startFrame"\<close> to \<open>start\<close> and
  \<^verbatim>\<open>"endFrame"\<close> to \<open>end\<close>, so \<^verbatim>\<open>startFrame()\<close> and \<^verbatim>\<open>endFrame()\<close> return them; the
  value \<open>end + 1\<close> goes to the export job only.
\<close>

theorem Cache_save_stores_range:
  assumes "fst (Cache_save h self p (Some (Some start, Some end')) sampleBy fileType exportUSD)
             = Inr self'"
      and "start < end'"
  shows "map_of (metadata self') ''startFrame'' = Some (PyInt start)
       \<and> map_of (metadata self') ''endFrame'' = Some (PyInt end')
       \<and> startFrame self' = Some (PyInt start)
       \<and> endFrame self' = Some (PyInt end')
       \<and> AbcExport start (end' + 1) (pose_objects self) (os_path_join p ''cache.abc'')
           \<in> set (snd (Cache_save h self p (Some (Some start, Some end'))
                        sampleBy fileType exportUSD))"
proof -
  from Cache_save_success [OF assms(1)]
  have s: "self' = setPath (setMetadata (setMetadata self ''endFrame'' (PyInt end'))
                   ''startFrame'' (PyInt start)) p" by simp
  have m: "map_of (metadata self') ''startFrame'' = Some (PyInt start)"
          "map_of (metadata self') ''endFrame'' = Some (PyInt end')"
    by (simp_all add: s setPath_metadata setMetadata_lookup)
  have "AbcExport start (end' + 1) (pose_objects self) (os_path_join p ''cache.abc'')
          \<in> set (take 2 (snd (Cache_save h self p (Some (Some start, Some end'))
                               sampleBy fileType exportUSD)))"
    by (simp add: Cache_save_events [OF assms(2)])
  then have "AbcExport start (end' + 1) (pose_objects self) (os_path_join p ''cache.abc'')
          \<in> set (snd (Cache_save h self p (Some (Some start, Some end'))
                       sampleBy fileType exportUSD))"
    by (rule in_set_takeD)
  with m show ?thesis by (simp add: startFrame_def endFrame_def)
qed

theorem Cache_save_stores_range_witness:
  "isl (fst (Cache_save demo_host demo_cache (ustr ''/lib/run'') (Some (Some 1, Some 24))
             1 None False)) = False
   \<and> (1::int) < 24
   \<and> startFrame (projr (fst (Cache_save demo_host demo_cache (ustr ''/lib/run'')
                               (Some (Some 1, Some 24)) 1 None False))) = Some (PyInt 1)
   \<and> endFrame (projr (fst (Cache_save demo_host demo_cache (ustr ''/lib/run'')
                             (Some (Some 1, Some 24)) 1 None False))) = Some (PyInt 24)
   \<and> AbcExport 1 25 [''pCube1'', ''pSphere1''] (ustr ''/lib/run/cache.abc'')
       \<in> set (snd (Cache_save demo_host demo_cache (ustr ''/lib/run'')
                    (Some (Some 1, Some 24)) 1 None False))"
proof -
  let ?saved = "\<lparr>pose_path = ustr ''/lib/run'',
           pose_metadata = [(''timeUnit'', PyStr ''film''), (''endFrame'', PyInt 24),
                            (''startFrame'', PyInt 1)],
           pose_objects = [''pCube1'', ''pSphere1'']\<rparr>"
  have ok: "fst (Cache_save demo_host demo_cache (ustr ''/lib/run'') (Some (Some 1, Some 24))
                  1 None False) = Inr ?saved"
    by (simp add: demo_save)
  have lt: "(1::int) < 24" by simp
  from Cache_save_stores_range [OF ok lt] show ?thesis
    by (simp add: demo_save)
qed

section \<open>Properties of loading a sequence\<close>










section \<open>Properties of the save validator\<close>

text \<open>
  C9. \<^verbatim>\<open>CacheItem.saveValidator\<close> returns the fields of the base validator, followed by
  a \<^verbatim>\<open>byFrame\<close> error exactly when \<^verbatim>\<open>byFrame\<close> is \<^verbatim>\<open>''\<close> or less than 1, followed by a
  \<^verbatim>\<open>frameRange\<close> error exactly when the frame range, \<open>(0, 1)\<close> when absent, has
  \<open>start \<ge> end\<close>; nothing else is added.
\<close>

theorem saveValidator_fields:
  "saveValidator base_fields kwargs =
     base_fields
     @ (if byFrame kwargs = Some Blank \<or> (\<exists>n. byFrame kwargs = Some (Frames n) \<and> n < 1)
        then [[(''name'', ''byFrame''),
               (''error'', ''The by frame value cannot be less than 1!'')]]
        else [])
     @ (if fst (case frameRange kwargs of None \<Rightarrow> (0, 1) | Some r \<Rightarrow> r)
             \<ge> snd (case frameRange kwargs of None \<Rightarrow> (0, 1) | Some r \<Rightarrow> r)
        then [[(''name'', ''frameRange''),
               (''error'',
                ''The start frame cannot be greater than or equal to the end frame!'')]]
        else [])"
proof (cases "frameRange kwargs")
  case None
  then show ?thesis
    by (auto simp: saveValidator_def Let_def split: option.splits byFrame_value.splits)
next
  case (Some r)
  then show ?thesis
    by (cases r)
       (auto simp: saveValidator_def Let_def split: option.splits byFrame_value.splits)
qed

text \<open>
  A blank \<^verbatim>\<open>byFrame\<close> with the range \<open>(10, 10)\<close> gets both errors after the base field;
  no keys at all get none.
\<close>

theorem saveValidator_fields_witness:
  "saveValidator [[(''name'', ''folder'')]] \<lparr>byFrame = Some Blank, frameRange = Some (10, 10)\<rparr> =
     [[(''name'', ''folder'')],
      [(''name'', ''byFrame''), (''error'', ''The by frame value cannot be less than 1!'')],
      [(''name'', ''frameRange''),
       (''error'', ''The start frame cannot be greater than or equal to the end frame!'')]]
   \<and> saveValidator [[(''name'', ''folder'')]] \<lparr>byFrame = None, frameRange = None\<rparr> =
       [[(''name'', ''folder'')]]"
  using saveValidator_fields [of "[[(''name'', ''folder'')]]"
          "\<lparr>byFrame = Some Blank, frameRange = Some (10, 10)\<rparr>"]
        saveValidator_fields [of "[[(''name'', ''folder'')]]"
          "\<lparr>byFrame = None, frameRange = None\<rparr>"]
  by simp

end
